theory Spec2Isabelle
  imports Complex_Main
begin

section \<open>Strings\<close>

text \<open>
  A Python \<open>str\<close> is modelled as a \<open>string\<close> holding its UTF-8 bytes. \<open>str.lower()\<close>
  is modelled on the ASCII letters; bytes outside \<open>A\<close>..\<open>Z\<close> are left as they are.
  None of the business-type keys compared against a lowercased string below contains a
  letter that a non-ASCII character lowercases to, so the comparisons agree with Python.
\<close>

definition lower_char :: "char \<Rightarrow> char" where
  "lower_char c =
     (case map_of (zip ''ABCDEFGHIJKLMNOPQRSTUVWXYZ'' ''abcdefghijklmnopqrstuvwxyz'') c of
        None \<Rightarrow> c
      | Some d \<Rightarrow> d)"

definition str_lower :: "string \<Rightarrow> string" where
  "str_lower s = map lower_char s"

fun starts_with :: "string \<Rightarrow> string \<Rightarrow> bool" where
  "starts_with s [] = True"
| "starts_with [] (p # ps) = False"
| "starts_with (c # cs) (p # ps) = (c = p \<and> starts_with cs ps)"

text \<open>\<open>str_contains needle s\<close> is Python's \<open>needle in s\<close> on strings.\<close>

fun str_contains :: "string \<Rightarrow> string \<Rightarrow> bool" where
  "str_contains needle [] = (needle = [])"
| "str_contains needle (c # cs) = (starts_with (c # cs) needle \<or> str_contains needle cs)"

text \<open>\<open>join sep xs\<close> is Python's \<open>sep.join(xs)\<close>.\<close>

fun join :: "string \<Rightarrow> string list \<Rightarrow> string" where
  "join sep [] = []"
| "join sep [x] = x"
| "join sep (x # y # ys) = x @ sep @ join sep (y # ys)"

text \<open>
  The builtins of Python that the analyzer calls on floats and lists and that are not
  part of the repository: \<open>f"{x:.2f}"\<close> and \<open>str(list)\<close>. They are parameters of the
  model.
\<close>

record py_builtins =
  format_2f :: "real \<Rightarrow> string"
  str_of_list :: "string list \<Rightarrow> string"

section \<open>Input dictionaries\<close>

text \<open>
  The analyzer reads its input dictionaries with \<open>dict.get(key, default)\<close>. A dictionary
  is a record with one optional field for each key that is read: \<open>None\<close> is an absent key.
  The address validator stores Python's \<open>None\<close> under \<open>location_type\<close> and
  \<open>neighborhood_context\<close> when it has no value; such a key is modelled as absent, since
  neither \<open>None\<close> nor the default \<open>'unknown'\<close> equals any string the analyzer
  compares with. The field \<open>address_error\<close> is the key \<open>error\<close>: the text that an
  f-string shows for its value when the key is present. Floats are modelled as exact
  reals.
\<close>

record address_data =
  is_valid :: "bool option"
  coordinates :: "(real \<times> real) option"
  location_type :: "string option"
  neighborhood_context :: "string option"
  nearby_amenities :: "string list option"
  address_error :: "string option"

record building =
  area :: real
  vertices :: nat
  perimeter :: real

record building_detection_dict =
  building_count :: "int option"
  total_building_area :: "real option"
  largest_building_area :: "real option"
  buildings :: "building list option"

record vehicle =
  vehicle_area :: real
  aspect_ratio :: real
  position :: "int \<times> int"

record vehicle_detection_dict =
  vehicle_count :: "int option"
  vehicles :: "vehicle list option"

record infrastructure_features_dict =
  detected_lines :: "int option"
  infrastructure_density :: "real option"

record area_characteristics_dict =
  vegetation_percentage :: "real option"
  water_percentage :: "real option"
  average_brightness :: "real option"
  developed_area_percentage :: "real option"

record visual_features_dict =
  building_detection :: "building_detection_dict option"
  vehicle_detection :: "vehicle_detection_dict option"
  infrastructure_features :: "infrastructure_features_dict option"
  area_characteristics :: "area_characteristics_dict option"
  cv_error :: "string option"

record infrastructure_assessment_dict =
  positive_indicators :: "string list option"

record satellite_data =
  analysis_completed :: "bool option"
  visual_features :: "visual_features_dict option"
  infrastructure_assessment :: "infrastructure_assessment_dict option"
  risk_indicators :: "string list option"
  confidence_score :: "real option"

text \<open>The empty dictionaries \<open>{}\<close> that \<open>dict.get\<close> falls back to.\<close>

definition empty_building_detection :: building_detection_dict where
  "empty_building_detection =
     \<lparr>building_count = None, total_building_area = None, largest_building_area = None,
      buildings = None\<rparr>"

definition empty_vehicle_detection :: vehicle_detection_dict where
  "empty_vehicle_detection = \<lparr>vehicle_count = None, vehicles = None\<rparr>"

definition empty_infrastructure_features :: infrastructure_features_dict where
  "empty_infrastructure_features = \<lparr>detected_lines = None, infrastructure_density = None\<rparr>"

definition empty_area_characteristics :: area_characteristics_dict where
  "empty_area_characteristics =
     \<lparr>vegetation_percentage = None, water_percentage = None, average_brightness = None,
      developed_area_percentage = None\<rparr>"

definition empty_visual_features :: visual_features_dict where
  "empty_visual_features =
     \<lparr>building_detection = None, vehicle_detection = None, infrastructure_features = None,
      area_characteristics = None, cv_error = None\<rparr>"

definition empty_infrastructure_assessment :: infrastructure_assessment_dict where
  "empty_infrastructure_assessment = \<lparr>positive_indicators = None\<rparr>"

text \<open>\<open>get_or d x\<close> is \<open>dict.get(key, d)\<close> for the optional field \<open>x\<close>.\<close>

definition get_or :: "'a \<Rightarrow> 'a option \<Rightarrow> 'a" where
  "get_or d x = (case x of None \<Rightarrow> d | Some v \<Rightarrow> v)"

section \<open>The risk analyzer\<close>

text \<open>
  Each scorer builds a dictionary with the keys \<open>risk_score\<close>, \<open>risk_factors\<close>,
  \<open>positive_factors\<close> and a rating (\<open>address_quality\<close>, \<open>infrastructure_quality\<close> or
  \<open>compatibility_rating\<close>, the field \<open>quality\<close> here). The fusion step also looks up the
  key \<open>confidence_score\<close> in the satellite scorer's dictionary
  (\<open>satellite_risk.get('confidence_score', 0.5)\<close>); the field \<open>risk_confidence_score\<close>
  stands for that key, which no scorer creates.
\<close>

record risk_analysis =
  risk_score :: real
  risk_factors :: "string list"
  positive_factors :: "string list"
  quality :: string
  risk_confidence_score :: "real option"

text \<open>The thresholds that \<open>RiskAnalyzer.__init__\<close> copies from \<open>Config\<close>.\<close>

record risk_analyzer =
  high_risk_threshold :: real
  medium_risk_threshold :: real

text \<open>The analyzer when the environment overrides neither threshold (\<open>config.py\<close>).\<close>

definition default_analyzer :: risk_analyzer where
  "default_analyzer = \<lparr>high_risk_threshold = 0.7, medium_risk_threshold = 0.4\<rparr>"

definition location_mapping :: "(string \<times> string list) list" where
  "location_mapping =
     [(''logistics'', [''industrial'', ''commercial'']),
      (''manufacturing'', [''industrial'']),
      (''technology'', [''commercial'', ''office'']),
      (''consulting'', [''commercial'', ''office'']),
      (''retail'', [''commercial'']),
      (''restaurant'', [''commercial''])]"

definition get_expected_locations :: "string \<Rightarrow> string list" where
  "get_expected_locations business_type =
     get_or [''commercial''] (map_of location_mapping (str_lower business_type))"

definition add_risk :: "real \<Rightarrow> string list \<Rightarrow> risk_analysis \<Rightarrow> risk_analysis" where
  "add_risk amount factors r =
     r\<lparr>risk_score := risk_score r + amount, risk_factors := risk_factors r @ factors\<rparr>"

definition add_positive :: "string \<Rightarrow> risk_analysis \<Rightarrow> risk_analysis" where
  "add_positive factor r = r\<lparr>positive_factors := positive_factors r @ [factor]\<rparr>"

definition initial_risk_analysis :: risk_analysis where
  "initial_risk_analysis =
     \<lparr>risk_score = 0, risk_factors = [], positive_factors = [], quality = ''UNKNOWN'',
      risk_confidence_score = None\<rparr>"

definition business_supporting_amenities :: "string list" where
  "business_supporting_amenities = [''bank'', ''office'', ''commercial'', ''industrial'']"

definition address_location_step :: "string \<Rightarrow> string \<Rightarrow> risk_analysis \<Rightarrow> risk_analysis" where
  "address_location_step loc business_type r =
     (if loc = ''residential''
      then add_risk 0.4 [''Business registered at residential address''] r
      else if loc \<in> set (get_expected_locations business_type)
      then add_positive (''Address in appropriate '' @ loc @ '' area'') r
      else if loc = ''commercial'' \<and> business_type \<notin> set [''technology'', ''consulting'']
      then add_risk 0.1 [''Business type may not match commercial location''] r
      else r)"

definition address_neighborhood_step :: "string \<Rightarrow> string \<Rightarrow> risk_analysis \<Rightarrow> risk_analysis" where
  "address_neighborhood_step neighborhood business_type r =
     (if neighborhood = ''remote'' \<or> neighborhood = ''rural''
      then (if business_type \<in> set [''technology'', ''consulting'']
            then add_risk 0.3 [''Tech/consulting business in remote location''] r
            else r)
      else r)"

definition address_amenities_step :: "string list \<Rightarrow> risk_analysis \<Rightarrow> risk_analysis" where
  "address_amenities_step amenities r =
     (if filter (\<lambda>amenity. amenity \<in> set business_supporting_amenities) amenities \<noteq> []
      then add_positive ''Business-supporting amenities nearby'' r
      else r)"

definition address_quality_step :: "risk_analysis \<Rightarrow> risk_analysis" where
  "address_quality_step r =
     (if risk_score r < 0.2 then r\<lparr>quality := ''EXCELLENT''\<rparr>
      else if risk_score r < 0.4 then r\<lparr>quality := ''GOOD''\<rparr>
      else r\<lparr>quality := ''POOR''\<rparr>)"

definition analyze_address_risk :: "address_data \<Rightarrow> string \<Rightarrow> risk_analysis" where
  "analyze_address_risk a business_type =
     (if \<not> get_or False (is_valid a)
      then initial_risk_analysis
             \<lparr>risk_score := 0.9, risk_factors := [''Address not found or invalid''],
              quality := ''INVALID''\<rparr>
      else address_quality_step
             (address_amenities_step (get_or [] (nearby_amenities a))
               (address_neighborhood_step (get_or ''unknown'' (neighborhood_context a))
                  business_type
                 (address_location_step (get_or ''unknown'' (location_type a)) business_type
                    initial_risk_analysis))))"

text \<open>
  \<open>_analyze_satellite_risk\<close>. The visual features are read through nested
  \<open>dict.get\<close> calls, each with the empty dictionary or \<open>0\<close> as its default.
\<close>

definition read_building_detection :: "satellite_data \<Rightarrow> building_detection_dict" where
  "read_building_detection s =
     get_or empty_building_detection
       (building_detection (get_or empty_visual_features (visual_features s)))"

definition read_vehicle_detection :: "satellite_data \<Rightarrow> vehicle_detection_dict" where
  "read_vehicle_detection s =
     get_or empty_vehicle_detection
       (vehicle_detection (get_or empty_visual_features (visual_features s)))"

definition read_positive_indicators :: "satellite_data \<Rightarrow> string list" where
  "read_positive_indicators s =
     get_or []
       (positive_indicators
          (get_or empty_infrastructure_assessment (infrastructure_assessment s)))"

definition satellite_building_step :: "int \<Rightarrow> real \<Rightarrow> risk_analysis \<Rightarrow> risk_analysis" where
  "satellite_building_step count largest r =
     (if count = 0
      then add_risk 0.5 [''No buildings detected at registered address''] r
      else if count > 0 \<and> largest > 5000
      then add_positive ''Substantial building infrastructure present'' r
      else r)"

definition satellite_vehicle_step :: "int \<Rightarrow> string \<Rightarrow> risk_analysis \<Rightarrow> risk_analysis" where
  "satellite_vehicle_step count business_type r =
     (if count > 5
      then add_positive ''Multiple vehicles present - signs of activity'' r
      else if count = 0 \<and> business_type \<in> set [''logistics'', ''transport'']
      then add_risk 0.3 [''No vehicles visible for logistics/transport business''] r
      else r)"

definition satellite_indicator_step :: "string list \<Rightarrow> risk_analysis \<Rightarrow> risk_analysis" where
  "satellite_indicator_step indicators r =
     (if length indicators \<ge> 3
      then add_positive ''Strong infrastructure indicators from AI analysis'' r
      else if length indicators = 0
      then add_risk 0.2 [''Limited infrastructure indicators''] r
      else r)"

definition satellite_ai_risk_step :: "string list \<Rightarrow> risk_analysis \<Rightarrow> risk_analysis" where
  "satellite_ai_risk_step ai_risk_indicators r =
     (if ai_risk_indicators \<noteq> []
      then add_risk (min 0.4 (real (length ai_risk_indicators) * 0.1))
             (take 3 ai_risk_indicators) r
      else r)"

definition satellite_quality_step :: "string list \<Rightarrow> risk_analysis \<Rightarrow> risk_analysis" where
  "satellite_quality_step indicators r =
     (if risk_score r < 0.2 \<and> length indicators \<ge> 2 then r\<lparr>quality := ''EXCELLENT''\<rparr>
      else if risk_score r < 0.4 then r\<lparr>quality := ''ADEQUATE''\<rparr>
      else r\<lparr>quality := ''POOR''\<rparr>)"

definition analyze_satellite_risk :: "satellite_data \<Rightarrow> string \<Rightarrow> risk_analysis" where
  "analyze_satellite_risk s business_type =
     (if \<not> get_or False (analysis_completed s)
      then initial_risk_analysis
             \<lparr>risk_score := 0.3, risk_factors := [''Satellite analysis unavailable'']\<rparr>
      else satellite_quality_step (read_positive_indicators s)
             (satellite_ai_risk_step (get_or [] (risk_indicators s))
               (satellite_indicator_step (read_positive_indicators s)
                 (satellite_vehicle_step
                    (get_or 0 (vehicle_count (read_vehicle_detection s))) business_type
                   (satellite_building_step
                      (get_or 0 (building_count (read_building_detection s)))
                      (get_or 0 (largest_building_area (read_building_detection s)))
                      initial_risk_analysis)))))"

text \<open>
  \<open>_analyze_business_compatibility\<close>. The declared activity is accepted and not read;
  \<open>expected_infrastructure\<close> is computed by the source and not used.
\<close>

definition compat_residential_step :: "string \<Rightarrow> string \<Rightarrow> risk_analysis \<Rightarrow> risk_analysis" where
  "compat_residential_step business_type loc r =
     (if str_lower business_type \<in> set [''logistics'', ''manufacturing'']
         \<and> loc = ''residential''
      then add_risk 0.6
             [''Industrial '' @ business_type @ '' business at residential location''] r
      else r)"

definition compat_industrial_step :: "string \<Rightarrow> string \<Rightarrow> risk_analysis \<Rightarrow> risk_analysis" where
  "compat_industrial_step business_type loc r =
     (if str_lower business_type \<in> set [''technology'', ''consulting'']
         \<and> loc = ''industrial''
      then add_risk 0.2
             [business_type @ '' business in industrial area (unusual but possible)''] r
      else r)"

definition compat_size_step :: "string \<Rightarrow> real \<Rightarrow> risk_analysis \<Rightarrow> risk_analysis" where
  "compat_size_step business_type total_area r =
     (if str_lower business_type \<in> set [''logistics'', ''manufacturing'']
      then (if total_area < 1000
            then add_risk 0.3 [''Small infrastructure for industrial business type''] r
            else add_positive ''Adequate infrastructure size for business type'' r)
      else r)"

definition compat_activity_step :: "string \<Rightarrow> int \<Rightarrow> risk_analysis \<Rightarrow> risk_analysis" where
  "compat_activity_step business_type count r =
     (if str_lower business_type \<in> set [''logistics'', ''transport'']
      then (if count < 2
            then add_risk 0.2 [''Low vehicle activity for transport/logistics business''] r
            else r)
      else r)"

definition compat_rating_step :: "risk_analysis \<Rightarrow> risk_analysis" where
  "compat_rating_step r =
     (if risk_score r < 0.15 then r\<lparr>quality := ''EXCELLENT''\<rparr>
      else if risk_score r < 0.35 then r\<lparr>quality := ''GOOD''\<rparr>
      else if risk_score r < 0.55 then r\<lparr>quality := ''QUESTIONABLE''\<rparr>
      else r\<lparr>quality := ''POOR''\<rparr>)"

definition analyze_business_compatibility ::
  "address_data \<Rightarrow> satellite_data \<Rightarrow> string \<Rightarrow> string \<Rightarrow> risk_analysis" where
  "analyze_business_compatibility a s business_type declared_activity =
     compat_rating_step
       (compat_activity_step business_type
          (get_or 0 (vehicle_count (read_vehicle_detection s)))
         (compat_size_step business_type
            (get_or 0 (total_building_area (read_building_detection s)))
           (compat_industrial_step business_type (get_or ''unknown'' (location_type a))
             (compat_residential_step business_type (get_or ''unknown'' (location_type a))
                initial_risk_analysis))))"

text \<open>\<open>_calculate_overall_risk_score\<close>: the weighted sum, the confidence adjustment, the cap.\<close>

definition weighted_average :: "risk_analysis \<Rightarrow> risk_analysis \<Rightarrow> risk_analysis \<Rightarrow> real" where
  "weighted_average address_risk satellite_risk compatibility_risk =
     risk_score address_risk * 0.3 + risk_score satellite_risk * 0.4
       + risk_score compatibility_risk * 0.3"

definition calculate_overall_risk_score ::
  "risk_analysis \<Rightarrow> risk_analysis \<Rightarrow> risk_analysis \<Rightarrow> real" where
  "calculate_overall_risk_score address_risk satellite_risk compatibility_risk =
     min 1
       (if get_or 0.5 (risk_confidence_score satellite_risk) < 0.3
        then weighted_average address_risk satellite_risk compatibility_risk + 0.1
        else weighted_average address_risk satellite_risk compatibility_risk)"

section \<open>The final assessment\<close>

text \<open>
  The result dictionary of \<open>analyze_comprehensive_risk\<close>. Its \<open>detailed_assessment\<close>
  is an association list, since \<open>_generate_final_assessment\<close> walks its values in
  insertion order. The keys \<open>risk_factors\<close> and \<open>positive_factors\<close> of the result are
  the fields \<open>result_risk_factors\<close> and \<open>result_positive_factors\<close>.
\<close>

record business_information_dict =
  info_type :: string
  info_declared_activity :: string

record analysis_result =
  cnpj :: string
  analysis_timestamp :: string
  address_validation :: address_data
  satellite_analysis :: satellite_data
  business_information :: business_information_dict
  result_risk_factors :: "string list"
  result_positive_factors :: "string list"
  overall_risk_score :: real
  risk_level :: string
  recommendation :: string
  detailed_assessment :: "(string \<times> risk_analysis) list"
  confidence_level :: real
  recommendation_text :: "string option"
  result_error :: "string option"

record final_assessment =
  fa_overall_risk_score :: real
  fa_risk_level :: string
  fa_recommendation :: string
  fa_recommendation_text :: string
  fa_risk_factors :: "string list"
  fa_positive_factors :: "string list"
  fa_confidence_level :: real

text \<open>The three symbols that open the recommendation texts, as UTF-8 bytes.\<close>

definition alarm_sign :: string where
  "alarm_sign = [CHR 0xF0, CHR 0x9F, CHR 0x9A, CHR 0xA8]"

definition warning_sign :: string where
  "warning_sign = [CHR 0xE2, CHR 0x9A, CHR 0xA0, CHR 0xEF, CHR 0xB8, CHR 0x8F]"

definition check_mark :: string where
  "check_mark = [CHR 0xE2, CHR 0x9C, CHR 0x85]"

definition generate_recommendation_text ::
  "py_builtins \<Rightarrow> string \<Rightarrow> real \<Rightarrow> string list \<Rightarrow> string list \<Rightarrow> string" where
  "generate_recommendation_text py level score rfs pfs =
     (if level = ''HIGH''
      then alarm_sign @ '' HIGH RISK (Score: '' @ format_2f py score @ ''): ''
           @ (if str_contains ''residential'' (str_lower (str_of_list py rfs))
              then ''ALERT: Registered address is residential. '' else [])
           @ (if str_contains ''no buildings'' (str_lower (str_of_list py rfs))
              then ''No commercial infrastructure visible. '' else [])
           @ ''High probability of shell company. Block registration and forward for manual review.''
      else if level = ''MEDIUM''
      then warning_sign @ '' MEDIUM RISK (Score: '' @ format_2f py score @ ''): ''
           @ ''The company may be legitimate, but shows some risk indicators. ''
           @ (if pfs \<noteq> []
              then ''Positive points: '' @ join '', '' (take 2 pfs) @ ''. '' else [])
           @ ''Additional document verification recommended.''
      else check_mark @ '' LOW RISK (Score: '' @ format_2f py score @ ''): ''
           @ ''Address validated. ''
           @ (if pfs \<noteq> []
              then ''Adequate infrastructure identified: '' @ join '', '' (take 2 pfs) @ ''. ''
              else [])
           @ ''Automatic approval recommended.'')"

definition calculate_confidence_level :: "analysis_result \<Rightarrow> real" where
  "calculate_confidence_level res =
     (0 + (if get_or False (is_valid (address_validation res)) then 0.8 else 0.3)
        + get_or 0.5 (confidence_score (satellite_analysis res))
        + (if get_or False (analysis_completed (satellite_analysis res)) then 0.9 else 0.4))
     / 3"

definition generate_final_assessment ::
  "risk_analyzer \<Rightarrow> py_builtins \<Rightarrow> real \<Rightarrow> analysis_result \<Rightarrow> final_assessment" where
  "generate_final_assessment self py overall_score res =
     (let all_risk_factors = concat (map (\<lambda>kv. risk_factors (snd kv)) (detailed_assessment res));
          all_positive_factors =
            concat (map (\<lambda>kv. positive_factors (snd kv)) (detailed_assessment res));
          level = (if overall_score \<ge> high_risk_threshold self then ''HIGH''
                   else if overall_score \<ge> medium_risk_threshold self then ''MEDIUM''
                   else ''LOW'');
          rec = (if overall_score \<ge> high_risk_threshold self then ''BLOCK''
                 else if overall_score \<ge> medium_risk_threshold self then ''MANUAL_REVIEW''
                 else ''AUTO_APPROVE'')
      in \<lparr>fa_overall_risk_score = overall_score,
          fa_risk_level = level,
          fa_recommendation = rec,
          fa_recommendation_text =
            generate_recommendation_text py level overall_score all_risk_factors
              all_positive_factors,
          fa_risk_factors = take 5 all_risk_factors,
          fa_positive_factors = take 5 all_positive_factors,
          fa_confidence_level = calculate_confidence_level res\<rparr>)"

text \<open>\<open>analysis_result.update(final_assessment)\<close>.\<close>

definition update_result :: "final_assessment \<Rightarrow> analysis_result \<Rightarrow> analysis_result" where
  "update_result fa res =
     res\<lparr>overall_risk_score := fa_overall_risk_score fa,
         risk_level := fa_risk_level fa,
         recommendation := fa_recommendation fa,
         recommendation_text := Some (fa_recommendation_text fa),
         result_risk_factors := fa_risk_factors fa,
         result_positive_factors := fa_positive_factors fa,
         confidence_level := fa_confidence_level fa\<rparr>"

text \<open>
  \<open>analyze_comprehensive_risk\<close>. The reading of the clock,
  \<open>datetime.now().isoformat()\<close>, is the argument \<open>now\<close>. On the typed inputs of this
  model no step of the \<open>try\<close> block raises, so the \<open>except\<close> branch is not taken and
  the key \<open>error\<close> stays absent.
\<close>

definition analyze_comprehensive_risk ::
  "risk_analyzer \<Rightarrow> py_builtins \<Rightarrow> string \<Rightarrow> string \<Rightarrow> address_data \<Rightarrow> satellite_data
     \<Rightarrow> string \<Rightarrow> string \<Rightarrow> analysis_result" where
  "analyze_comprehensive_risk self py now cnpj_in a s business_type declared_activity =
     (let address_risk = analyze_address_risk a business_type;
          satellite_risk = analyze_satellite_risk s business_type;
          compatibility_risk =
            analyze_business_compatibility a s business_type declared_activity;
          res = \<lparr>cnpj = cnpj_in,
                 analysis_timestamp = now,
                 address_validation = a,
                 satellite_analysis = s,
                 business_information =
                   \<lparr>info_type = business_type, info_declared_activity = declared_activity\<rparr>,
                 result_risk_factors = [],
                 result_positive_factors = [],
                 overall_risk_score = 0,
                 risk_level = ''UNKNOWN'',
                 recommendation = ''MANUAL_REVIEW'',
                 detailed_assessment =
                   [(''address_risk'', address_risk),
                    (''satellite_risk'', satellite_risk),
                    (''compatibility_risk'', compatibility_risk)],
                 confidence_level = 0,
                 recommendation_text = None,
                 result_error = None\<rparr>;
          overall_score =
            calculate_overall_risk_score address_risk satellite_risk compatibility_risk
      in update_result (generate_final_assessment self py overall_score res) res)"

section \<open>The request orchestrator\<close>











section \<open>The feature extractor\<close>

text \<open>
  \<open>satellite_analyzer.py\<close> computes the visual features with OpenCV, which is not part
  of the repository. The OpenCV pipelines are parameters of the model: a call that may
  raise returns \<open>Inl\<close> with the message of the exception. \<open>imdecode\<close> returns
  \<open>Inr None\<close> for a buffer that is not an image. \<open>edge_contours\<close> is the grayscale
  conversion, the Canny edge map (50, 150) and \<open>findContours\<close> of \<open>_detect_buildings\<close>;
  \<open>bright_contours\<close> is the grayscale conversion, the threshold at 200 and
  \<open>findContours\<close> of \<open>_detect_vehicles\<close>. \<open>approxPolyDP cv c epsilon\<close> is the number
  of vertices of the closed polygon approximating \<open>c\<close> with tolerance \<open>epsilon\<close>, and
  \<open>arcLength\<close> the perimeter of the closed contour.
\<close>

record ('img, 'c) cv2_ops =
  imdecode :: "string \<Rightarrow> string + 'img option"
  edge_contours :: "'img \<Rightarrow> string + 'c list"
  bright_contours :: "'img \<Rightarrow> string + 'c list"
  contourArea :: "'c \<Rightarrow> real"
  arcLength :: "'c \<Rightarrow> real"
  approxPolyDP :: "'c \<Rightarrow> real \<Rightarrow> nat"
  boundingRect :: "'c \<Rightarrow> int \<times> int \<times> int \<times> int"
  analyze_infrastructure :: "'img \<Rightarrow> string + infrastructure_features_dict"
  analyze_area_characteristics :: "'img \<Rightarrow> string + area_characteristics_dict"

text \<open>The loop of \<open>_detect_buildings\<close> over the contours, appending to \<open>buildings\<close>.\<close>

fun building_loop :: "('img, 'c) cv2_ops \<Rightarrow> 'c list \<Rightarrow> building list \<Rightarrow> building list" where
  "building_loop cv [] bs = bs"
| "building_loop cv (contour # rest) bs =
     (if contourArea cv contour > 1000
      then (if approxPolyDP cv contour (0.02 * arcLength cv contour) \<ge> 4
            then building_loop cv rest
                   (bs @ [\<lparr>area = contourArea cv contour,
                           vertices = approxPolyDP cv contour (0.02 * arcLength cv contour),
                           perimeter = arcLength cv contour\<rparr>])
            else building_loop cv rest bs)
      else building_loop cv rest bs)"

text \<open>\<open>max(xs, default=d)\<close>.\<close>

fun max_default :: "real \<Rightarrow> real list \<Rightarrow> real" where
  "max_default d [] = d"
| "max_default d (x # xs) = fold max xs x"

definition detect_buildings ::
  "('img, 'c) cv2_ops \<Rightarrow> 'img \<Rightarrow> string + building_detection_dict" where
  "detect_buildings cv img =
     (case edge_contours cv img of
        Inl e \<Rightarrow> Inl e
      | Inr contours \<Rightarrow>
          Inr \<lparr>building_count = Some (int (length (building_loop cv contours []))),
               total_building_area = Some (sum_list (map area (building_loop cv contours []))),
               largest_building_area =
                 Some (max_default 0 (map area (building_loop cv contours []))),
               buildings = Some (take 10 (building_loop cv contours []))\<rparr>)"

text \<open>
  The loop of \<open>_detect_vehicles\<close>. \<open>w / float(h)\<close> raises \<open>ZeroDivisionError\<close> for a
  bounding box of height 0.
\<close>

fun vehicle_loop :: "('img, 'c) cv2_ops \<Rightarrow> 'c list \<Rightarrow> vehicle list \<Rightarrow> string + vehicle list" where
  "vehicle_loop cv [] vs = Inr vs"
| "vehicle_loop cv (contour # rest) vs =
     (if 50 < contourArea cv contour \<and> contourArea cv contour < 500
      then (case boundingRect cv contour of
              (x, y, w, h) \<Rightarrow>
                if h = 0 then Inl ''float division by zero''
                else if 0.5 < real_of_int w / real_of_int h \<and> real_of_int w / real_of_int h < 3
                then vehicle_loop cv rest
                       (vs @ [\<lparr>vehicle_area = contourArea cv contour,
                               aspect_ratio = real_of_int w / real_of_int h,
                               position = (x, y)\<rparr>])
                else vehicle_loop cv rest vs)
      else vehicle_loop cv rest vs)"

definition detect_vehicles ::
  "('img, 'c) cv2_ops \<Rightarrow> 'img \<Rightarrow> string + vehicle_detection_dict" where
  "detect_vehicles cv img =
     (case bright_contours cv img of
        Inl e \<Rightarrow> Inl e
      | Inr contours \<Rightarrow>
          (case vehicle_loop cv contours [] of
             Inl e \<Rightarrow> Inl e
           | Inr vs \<Rightarrow> Inr \<lparr>vehicle_count = Some (int (length vs)), vehicles = Some vs\<rparr>))"

text \<open>
  \<open>_computer_vision_analysis\<close>. The dictionary \<open>analysis\<close> starts with four empty
  sections; the \<open>try\<close> block fills them one after the other, and the handler of
  \<open>Exception\<close> records the message under \<open>error\<close> and keeps what was filled before.
  The result is \<open>Inr\<close> of the dictionary returned; \<open>Inl\<close> would be an exception
  leaving the function.
\<close>

definition initial_analysis :: visual_features_dict where
  "initial_analysis =
     \<lparr>building_detection = Some empty_building_detection,
      vehicle_detection = Some empty_vehicle_detection,
      infrastructure_features = Some empty_infrastructure_features,
      area_characteristics = Some empty_area_characteristics,
      cv_error = None\<rparr>"

definition computer_vision_analysis ::
  "('img, 'c) cv2_ops \<Rightarrow> string \<Rightarrow> string + visual_features_dict" where
  "computer_vision_analysis cv image_data =
     (case imdecode cv image_data of
        Inl e \<Rightarrow> Inr (initial_analysis\<lparr>cv_error := Some e\<rparr>)
      | Inr None \<Rightarrow> Inr initial_analysis
      | Inr (Some img) \<Rightarrow>
          (case detect_buildings cv img of
             Inl e \<Rightarrow> Inr (initial_analysis\<lparr>cv_error := Some e\<rparr>)
           | Inr b \<Rightarrow>
               (case detect_vehicles cv img of
                  Inl e \<Rightarrow>
                    Inr (initial_analysis\<lparr>building_detection := Some b, cv_error := Some e\<rparr>)
                | Inr v \<Rightarrow>
                    (case analyze_infrastructure cv img of
                       Inl e \<Rightarrow>
                         Inr (initial_analysis
                                \<lparr>building_detection := Some b, vehicle_detection := Some v,
                                 cv_error := Some e\<rparr>)
                     | Inr i \<Rightarrow>
                         (case analyze_area_characteristics cv img of
                            Inl e \<Rightarrow>
                              Inr (initial_analysis
                                     \<lparr>building_detection := Some b,
                                      vehicle_detection := Some v,
                                      infrastructure_features := Some i,
                                      cv_error := Some e\<rparr>)
                          | Inr c \<Rightarrow>
                              Inr (initial_analysis
                                     \<lparr>building_detection := Some b,
                                      vehicle_detection := Some v,
                                      infrastructure_features := Some i,
                                      area_characteristics := Some c\<rparr>))))))"

section \<open>Sample inputs\<close>

text \<open>
  \<open>stand_in_py\<close> stands in for the two Python builtins where a closed term is needed:
  two decimals by rounding half up on the exact real, and the list display with single
  quotes and no escapes. No theorem below depends on what it returns.
\<close>

definition manufacturer_downtown :: address_data where
  "manufacturer_downtown =
     \<lparr>is_valid = Some True, coordinates = Some (-23.55, -46.63),
      location_type = Some ''commercial'', neighborhood_context = Some ''urban'',
      nearby_amenities = Some [''bank''], address_error = Some ''None''\<rparr>"

definition stand_in_py :: py_builtins where
  "stand_in_py =
     \<lparr>format_2f = (\<lambda>x. let cents = nat \<lfloor>x * 100 + 1 / 2\<rfloor> in
                       [''0123456789'' ! (cents div 100 mod 10), CHR ''.'',
                        ''0123456789'' ! (cents div 10 mod 10),
                        ''0123456789'' ! (cents mod 10)]),
      str_of_list = (\<lambda>xs. ''['' @ join '', '' (map (\<lambda>x. [CHR 0x27] @ x @ [CHR 0x27]) xs) @ '']'')\<rparr>"

definition scenario_c_address :: address_data where
  "scenario_c_address =
     \<lparr>is_valid = Some True, coordinates = Some (-23.6, -46.92),
      location_type = Some ''residential'', neighborhood_context = Some ''urban'',
      nearby_amenities = Some [], address_error = Some ''None''\<rparr>"

definition scenario_c_satellite :: satellite_data where
  "scenario_c_satellite =
     \<lparr>analysis_completed = Some True,
      visual_features = Some
        \<lparr>building_detection = Some
           \<lparr>building_count = Some 1, total_building_area = Some 1500,
            largest_building_area = Some 1500,
            buildings = Some [\<lparr>area = 1500, vertices = 4, perimeter = 160\<rparr>]\<rparr>,
         vehicle_detection = Some \<lparr>vehicle_count = Some 0, vehicles = Some []\<rparr>,
         infrastructure_features = Some empty_infrastructure_features,
         area_characteristics = Some empty_area_characteristics,
         cv_error = None\<rparr>,
      infrastructure_assessment = Some \<lparr>positive_indicators = Some []\<rparr>,
      risk_indicators = Some [],
      confidence_score = Some 0.5\<rparr>"

definition empty_lot_satellite :: satellite_data where
  "empty_lot_satellite =
     \<lparr>analysis_completed = Some True,
      visual_features = Some
        \<lparr>building_detection = Some
           \<lparr>building_count = Some 0, total_building_area = Some 0,
            largest_building_area = Some 0, buildings = Some []\<rparr>,
         vehicle_detection = Some \<lparr>vehicle_count = Some 0, vehicles = Some []\<rparr>,
         infrastructure_features = Some empty_infrastructure_features,
         area_characteristics = Some empty_area_characteristics,
         cv_error = None\<rparr>,
      infrastructure_assessment = Some \<lparr>positive_indicators = Some []\<rparr>,
      risk_indicators = Some [''the lot is empty'', ''residential street'',
                              ''looks like a facade'', ''suspicious: no signage''],
      confidence_score = Some 0.35\<rparr>"


definition busy_warehouse_satellite :: satellite_data where
  "busy_warehouse_satellite =
     \<lparr>analysis_completed = Some True,
      visual_features = Some
        \<lparr>building_detection = Some
           \<lparr>building_count = Some 3, total_building_area = Some 8000,
            largest_building_area = Some 6000, buildings = Some []\<rparr>,
         vehicle_detection = Some \<lparr>vehicle_count = Some 6, vehicles = Some []\<rparr>,
         infrastructure_features = Some empty_infrastructure_features,
         area_characteristics = Some empty_area_characteristics,
         cv_error = None\<rparr>,
      infrastructure_assessment = Some
        \<lparr>positive_indicators = Some [''large warehouse'', ''loading docks'',
                                     ''many vehicles'', ''industrial area'']\<rparr>,
      risk_indicators = Some [],
      confidence_score = Some 0.9\<rparr>"

definition repeated_indicator_satellite :: satellite_data where
  "repeated_indicator_satellite =
     busy_warehouse_satellite\<lparr>risk_indicators := Some [''empty lot'', ''empty lot'']\<rparr>"

text \<open>
  \<open>stand_in_cv2\<close> stands in for OpenCV where a closed term is needed: a contour is a
  pair of its area and the number of vertices of its approximation, an image is the list
  of its contours, and no buffer decodes to an image.
\<close>

definition stand_in_cv2 :: "((real \<times> nat) list, real \<times> nat) cv2_ops" where
  "stand_in_cv2 =
     \<lparr>imdecode = (\<lambda>data. if data = [] then Inl ''empty buffer'' else Inr None),
      edge_contours = Inr,
      bright_contours = Inr,
      contourArea = fst,
      arcLength = (\<lambda>c. 200),
      approxPolyDP = (\<lambda>c epsilon. snd c),
      boundingRect = (\<lambda>c. (0, 0, 20, 10)),
      analyze_infrastructure = (\<lambda>img. Inr empty_infrastructure_features),
      analyze_area_characteristics = (\<lambda>img. Inr empty_area_characteristics)\<rparr>"

definition four_contours :: "(real \<times> nat) list" where
  "four_contours = [(1500, 4), (900, 6), (2500, 3), (4000, 5)]"

definition eleven_contours :: "(real \<times> nat) list" where
  "eleven_contours =
     [(2000, 4), (3000, 4), (4000, 4), (5000, 4), (6000, 4), (7000, 4), (8000, 4),
      (9000, 4), (10000, 4), (11000, 4), (12000, 4)]"



section \<open>The retained contours\<close>

text \<open>
  The contours that building detection keeps, and the entry it records for one, stated
  apart from the loop.
\<close>

definition counted_as_building :: "('img, 'c) cv2_ops \<Rightarrow> 'c \<Rightarrow> bool" where
  "counted_as_building cv contour =
     (contourArea cv contour > 1000
      \<and> approxPolyDP cv contour (0.02 * arcLength cv contour) \<ge> 4)"

definition building_of :: "('img, 'c) cv2_ops \<Rightarrow> 'c \<Rightarrow> building" where
  "building_of cv contour =
     \<lparr>area = contourArea cv contour,
      vertices = approxPolyDP cv contour (0.02 * arcLength cv contour),
      perimeter = arcLength cv contour\<rparr>"

section \<open>The first exception\<close>

text \<open>
  The steps of the feature extractor in the order in which they run, each with the
  message of the exception it raises, if any; the detectors run only on a decoded image.
  \<open>first_exception\<close> is the message of the first step that raises.
\<close>

definition raised :: "string + 'a \<Rightarrow> string option" where
  "raised outcome = (case outcome of Inl e \<Rightarrow> Some e | Inr v \<Rightarrow> None)"

definition step_outcomes :: "('img, 'c) cv2_ops \<Rightarrow> string \<Rightarrow> string option list" where
  "step_outcomes cv image_data =
     raised (imdecode cv image_data)
     # (case imdecode cv image_data of
          Inr (Some img) \<Rightarrow>
            [raised (detect_buildings cv img), raised (detect_vehicles cv img),
             raised (analyze_infrastructure cv img),
             raised (analyze_area_characteristics cv img)]
        | _ \<Rightarrow> [])"

definition first_exception :: "('img, 'c) cv2_ops \<Rightarrow> string \<Rightarrow> string option" where
  "first_exception cv image_data =
     (case filter (\<lambda>outcome. outcome \<noteq> None) (step_outcomes cv image_data) of
        [] \<Rightarrow> None
      | outcome # later \<Rightarrow> outcome)"

section \<open>Properties\<close>

lemma add_risk_simps:
  "risk_score (add_risk k fs r) = risk_score r + k"
  "risk_factors (add_risk k fs r) = risk_factors r @ fs"
  "positive_factors (add_risk k fs r) = positive_factors r"
  "risk_confidence_score (add_risk k fs r) = risk_confidence_score r"
  by (simp_all add: add_risk_def)

lemma add_positive_simps:
  "risk_score (add_positive f r) = risk_score r"
  "risk_factors (add_positive f r) = risk_factors r"
  "positive_factors (add_positive f r) = positive_factors r @ [f]"
  "risk_confidence_score (add_positive f r) = risk_confidence_score r"
  by (simp_all add: add_positive_def)

lemma initial_simps:
  "risk_score initial_risk_analysis = 0"
  "risk_factors initial_risk_analysis = []"
  "positive_factors initial_risk_analysis = []"
  "risk_confidence_score initial_risk_analysis = None"
  by (simp_all add: initial_risk_analysis_def)

lemma address_quality_simps:
  "risk_score (address_quality_step r) = risk_score r"
  "risk_factors (address_quality_step r) = risk_factors r"
  "positive_factors (address_quality_step r) = positive_factors r"
  "risk_confidence_score (address_quality_step r) = risk_confidence_score r"
  by (simp_all add: address_quality_step_def)

lemma address_amenities_simps:
  "risk_score (address_amenities_step am r) = risk_score r"
  "risk_factors (address_amenities_step am r) = risk_factors r"
  "risk_confidence_score (address_amenities_step am r) = risk_confidence_score r"
  by (simp_all add: address_amenities_step_def add_positive_simps)

lemma address_neighborhood_score:
  "risk_score (address_neighborhood_step nb bt r) =
     risk_score r + (if (nb = ''remote'' \<or> nb = ''rural'') \<and> (bt = ''technology'' \<or> bt = ''consulting'')
                     then 0.3 else 0)"
  by (simp add: address_neighborhood_step_def add_risk_simps)

lemma address_neighborhood_factors:
  "risk_factors (address_neighborhood_step nb bt r) =
     risk_factors r @ (if (nb = ''remote'' \<or> nb = ''rural'') \<and> (bt = ''technology'' \<or> bt = ''consulting'')
                     then [''Tech/consulting business in remote location''] else [])"
  by (simp add: address_neighborhood_step_def add_risk_simps)

lemma str_lower_manufacturing_not_tech:
  "str_lower bt = ''manufacturing'' \<Longrightarrow> bt \<noteq> ''technology'' \<and> bt \<noteq> ''consulting''"
  by (auto simp add: str_lower_def lower_char_def)

lemma commercial_expected:
  "(''commercial'' \<in> set (get_expected_locations bt)) = (str_lower bt \<noteq> ''manufacturing'')"
  by (simp add: get_expected_locations_def location_mapping_def get_or_def)

lemma residential_not_expected:
  "''residential'' \<notin> set (get_expected_locations bt)"
  by (simp add: get_expected_locations_def location_mapping_def get_or_def)

lemma address_location_cases:
  "address_location_step loc bt r =
     (if loc = ''residential''
      then add_risk 0.4 [''Business registered at residential address''] r
      else if loc = ''commercial'' \<and> str_lower bt = ''manufacturing''
      then add_risk 0.1 [''Business type may not match commercial location''] r
      else if loc \<in> set (get_expected_locations bt)
      then add_positive (''Address in appropriate '' @ loc @ '' area'') r
      else r)"
  using str_lower_manufacturing_not_tech[of bt] commercial_expected[of bt]
  by (simp add: address_location_step_def)

text \<open>
  Claim C10. For a valid address and any business-type string, the address scorer adds
  the commercial type-mismatch factor, and with it 0.1, exactly when the location type is
  \<open>commercial\<close> and the lowercased business type is \<open>manufacturing\<close>: the
  expected-location list of every other business type, recognised or not, contains
  \<open>commercial\<close>, so the earlier branch of the chain is taken for them.
\<close>

theorem commercial_penalty_iff:
  assumes "is_valid a = Some True"
  shows "((''Business type may not match commercial location''
             \<in> set (risk_factors (analyze_address_risk a bt)))
          = (location_type a = Some ''commercial'' \<and> str_lower bt = ''manufacturing''))
       \<and> risk_score (analyze_address_risk a bt) =
           (if location_type a = Some ''residential'' then 0.4
            else if location_type a = Some ''commercial'' \<and> str_lower bt = ''manufacturing''
            then 0.1 else 0)
           + (if (neighborhood_context a = Some ''remote'' \<or> neighborhood_context a = Some ''rural'')
                 \<and> (bt = ''technology'' \<or> bt = ''consulting'')
              then 0.3 else 0)
       \<and> ((''commercial'' \<in> set (get_expected_locations bt))
            = (str_lower bt \<noteq> ''manufacturing''))"
proof -
  have v: "get_or False (is_valid a) = True"
    using assms by (simp add: get_or_def)
  have loc: "(get_or ''unknown'' (location_type a) = ''commercial'') = (location_type a = Some ''commercial'')"
            "(get_or ''unknown'' (location_type a) = ''residential'') = (location_type a = Some ''residential'')"
    by (simp_all add: get_or_def split: option.splits)
  have nb: "(get_or ''unknown'' (neighborhood_context a) = ''remote'') = (neighborhood_context a = Some ''remote'')"
           "(get_or ''unknown'' (neighborhood_context a) = ''rural'') = (neighborhood_context a = Some ''rural'')"
    by (simp_all add: get_or_def split: option.splits)
  have f: "(''Business type may not match commercial location''
             \<in> set (risk_factors (analyze_address_risk a bt)))
          = (location_type a = Some ''commercial'' \<and> str_lower bt = ''manufacturing'')"
    by (simp add: analyze_address_risk_def v address_quality_simps address_amenities_simps
          address_neighborhood_factors address_location_cases add_risk_simps add_positive_simps
          initial_simps loc)
  have sc: "risk_score (analyze_address_risk a bt) =
           (if location_type a = Some ''residential'' then 0.4
            else if location_type a = Some ''commercial'' \<and> str_lower bt = ''manufacturing''
            then 0.1 else 0)
           + (if (neighborhood_context a = Some ''remote'' \<or> neighborhood_context a = Some ''rural'')
                 \<and> (bt = ''technology'' \<or> bt = ''consulting'')
              then 0.3 else 0)"
    by (simp add: analyze_address_risk_def v address_quality_simps address_amenities_simps
          address_neighborhood_score address_location_cases add_risk_simps add_positive_simps
          initial_simps loc nb)
  show ?thesis using f sc commercial_expected[of bt] by blast
qed

theorem commercial_penalty_iff_witness:
  "is_valid manufacturer_downtown = Some True
   \<and> ''Business type may not match commercial location''
        \<in> set (risk_factors (analyze_address_risk manufacturer_downtown ''Manufacturing''))
   \<and> risk_score (analyze_address_risk manufacturer_downtown ''Manufacturing'') = 0.1"
proof -
  have h: "is_valid manufacturer_downtown = Some True"
    by (simp add: manufacturer_downtown_def)
  have l: "str_lower ''Manufacturing'' = ''manufacturing''"
    by (simp add: str_lower_def lower_char_def)
  show ?thesis
    using commercial_penalty_iff[OF h, of "''Manufacturing''"] l
    by (simp add: manufacturer_downtown_def)
qed

lemma satellite_building_score:
  "risk_score (satellite_building_step n largest r) = risk_score r + (if n = 0 then 0.5 else 0)"
  by (simp add: satellite_building_step_def add_risk_simps add_positive_simps)

lemma satellite_vehicle_score:
  "risk_score (satellite_vehicle_step n bt r) =
     risk_score r + (if n = 0 \<and> (bt = ''logistics'' \<or> bt = ''transport'') then 0.3 else 0)"
  by (simp add: satellite_vehicle_step_def add_risk_simps add_positive_simps)

lemma satellite_indicator_score:
  "risk_score (satellite_indicator_step xs r) = risk_score r + (if xs = [] then 0.2 else 0)"
  by (simp add: satellite_indicator_step_def add_risk_simps add_positive_simps)

lemma satellite_ai_risk_score:
  "risk_score (satellite_ai_risk_step xs r) =
     risk_score r + (if xs = [] then 0 else min 0.4 (real (length xs) * 0.1))"
  by (simp add: satellite_ai_risk_step_def add_risk_simps)

lemma satellite_quality_score:
  "risk_score (satellite_quality_step xs r) = risk_score r"
  by (simp add: satellite_quality_step_def)

lemma satellite_score_sum:
  "risk_score (analyze_satellite_risk s bt) =
     (if \<not> get_or False (analysis_completed s) then 0.3
      else (if get_or 0 (building_count (read_building_detection s)) = 0 then 0.5 else 0)
         + (if get_or 0 (vehicle_count (read_vehicle_detection s)) = 0
               \<and> (bt = ''logistics'' \<or> bt = ''transport'') then 0.3 else 0)
         + (if read_positive_indicators s = [] then 0.2 else 0)
         + (if get_or [] (risk_indicators s) = [] then 0
            else min 0.4 (real (length (get_or [] (risk_indicators s))) * 0.1)))"
proof (cases "get_or False (analysis_completed s)")
  case True
  then show ?thesis
    by (simp add: analyze_satellite_risk_def satellite_quality_score satellite_ai_risk_score
        satellite_indicator_score satellite_vehicle_score satellite_building_score initial_simps
        split del: if_split)
next
  case False
  then show ?thesis
    by (simp add: analyze_satellite_risk_def initial_risk_analysis_def)
qed

lemma compat_score_sum:
  "risk_score (analyze_business_compatibility a s bt d) =
       (if (str_lower bt = ''logistics'' \<or> str_lower bt = ''manufacturing'')
           \<and> get_or ''unknown'' (location_type a) = ''residential'' then 0.6 else 0)
     + (if (str_lower bt = ''technology'' \<or> str_lower bt = ''consulting'')
           \<and> get_or ''unknown'' (location_type a) = ''industrial'' then 0.2 else 0)
     + (if (str_lower bt = ''logistics'' \<or> str_lower bt = ''manufacturing'')
           \<and> get_or 0 (total_building_area (read_building_detection s)) < 1000 then 0.3 else 0)
     + (if (str_lower bt = ''logistics'' \<or> str_lower bt = ''transport'')
           \<and> get_or 0 (vehicle_count (read_vehicle_detection s)) < 2 then 0.2 else 0)"
proof -
  have r: "risk_score (compat_rating_step r) = risk_score r" for r
    by (simp add: compat_rating_step_def)
  have a: "risk_score (compat_activity_step bt n r) =
      risk_score r + (if (str_lower bt = ''logistics'' \<or> str_lower bt = ''transport'') \<and> n < 2
                      then 0.2 else 0)" for n r
    by (simp add: compat_activity_step_def add_risk_simps)
  have z: "risk_score (compat_size_step bt t r) =
      risk_score r + (if (str_lower bt = ''logistics'' \<or> str_lower bt = ''manufacturing'') \<and> t < 1000
                      then 0.3 else 0)" for t r
    by (simp add: compat_size_step_def add_risk_simps add_positive_simps)
  have i: "risk_score (compat_industrial_step bt l r) =
      risk_score r + (if (str_lower bt = ''technology'' \<or> str_lower bt = ''consulting'')
                         \<and> l = ''industrial'' then 0.2 else 0)" for l r
    by (simp add: compat_industrial_step_def add_risk_simps)
  have h: "risk_score (compat_residential_step bt l r) =
      risk_score r + (if (str_lower bt = ''logistics'' \<or> str_lower bt = ''manufacturing'')
                         \<and> l = ''residential'' then 0.6 else 0)" for l r
    by (simp add: compat_residential_step_def add_risk_simps)
  show ?thesis
    by (simp add: analyze_business_compatibility_def r a z i h initial_simps
          split del: if_split)
qed

lemma address_score_sum:
  "risk_score (analyze_address_risk a bt) =
     (if \<not> get_or False (is_valid a) then 0.9
      else (if get_or ''unknown'' (location_type a) = ''residential'' then 0.4
            else if get_or ''unknown'' (location_type a) = ''commercial''
                    \<and> str_lower bt = ''manufacturing'' then 0.1 else 0)
         + (if (get_or ''unknown'' (neighborhood_context a) = ''remote''
                \<or> get_or ''unknown'' (neighborhood_context a) = ''rural'')
               \<and> (bt = ''technology'' \<or> bt = ''consulting'') then 0.3 else 0))"
proof (cases "get_or False (is_valid a)")
  case True
  have l: "risk_score (address_location_step loc bt r) =
      risk_score r + (if loc = ''residential'' then 0.4
            else if loc = ''commercial'' \<and> str_lower bt = ''manufacturing'' then 0.1 else 0)"
    for loc r
    by (simp add: address_location_cases add_risk_simps add_positive_simps)
  from True show ?thesis
    by (simp add: analyze_address_risk_def address_quality_simps address_amenities_simps
        address_neighborhood_score l initial_simps split del: if_split)
next
  case False
  then show ?thesis
    by (simp add: analyze_address_risk_def initial_risk_analysis_def)
qed

text \<open>
  Claim C3, as the code has it. No scorer clamps its score. The address scorer's score
  lies in \<open>[0, 0.9]\<close>, the satellite scorer's in \<open>[0, 1.4]\<close> and the compatibility
  scorer's in \<open>[0, 1.1]\<close>, for every input.
\<close>

theorem scorer_ranges:
  "0 \<le> risk_score (analyze_address_risk a bt)
   \<and> risk_score (analyze_address_risk a bt) \<le> 0.9
   \<and> 0 \<le> risk_score (analyze_satellite_risk s bt)
   \<and> risk_score (analyze_satellite_risk s bt) \<le> 1.4
   \<and> 0 \<le> risk_score (analyze_business_compatibility a s bt d)
   \<and> risk_score (analyze_business_compatibility a s bt d) \<le> 1.1"
proof -
  have a: "0 \<le> risk_score (analyze_address_risk a bt)
           \<and> risk_score (analyze_address_risk a bt) \<le> 0.9"
    unfolding address_score_sum by simp
  have s: "0 \<le> risk_score (analyze_satellite_risk s bt)
           \<and> risk_score (analyze_satellite_risk s bt) \<le> 1.4"
    unfolding satellite_score_sum by (simp add: min_def)
  have c: "0 \<le> risk_score (analyze_business_compatibility a s bt d)
           \<and> risk_score (analyze_business_compatibility a s bt d) \<le> 1.1"
    unfolding compat_score_sum by simp
  show ?thesis using a s c by blast
qed

lemmas reader_defs =
  read_building_detection_def read_vehicle_detection_def read_positive_indicators_def
  get_or_def

lemmas final_defs =
  analyze_comprehensive_risk_def generate_final_assessment_def update_result_def
  calculate_overall_risk_score_def weighted_average_def default_analyzer_def Let_def

lemma overall_confidence_irrelevant:
  "overall_risk_score (analyze_comprehensive_risk self py now c a (s\<lparr>confidence_score := x\<rparr>) bt d)
   = overall_risk_score (analyze_comprehensive_risk self py now c a s bt d)"
  by (simp add: final_defs analyze_satellite_risk_def analyze_business_compatibility_def
        reader_defs)

lemma satellite_steps_keep_confidence_key:
  "risk_confidence_score (satellite_building_step n l r) = risk_confidence_score r"
  "risk_confidence_score (satellite_vehicle_step n bt r) = risk_confidence_score r"
  "risk_confidence_score (satellite_indicator_step xs r) = risk_confidence_score r"
  "risk_confidence_score (satellite_ai_risk_step xs r) = risk_confidence_score r"
  "risk_confidence_score (satellite_quality_step xs r) = risk_confidence_score r"
  by (simp_all add: satellite_quality_step_def
        satellite_ai_risk_step_def satellite_indicator_step_def satellite_vehicle_step_def
        satellite_building_step_def add_risk_simps add_positive_simps)

lemma satellite_no_confidence_key:
  "risk_confidence_score (analyze_satellite_risk s bt) = None"
  by (simp add: analyze_satellite_risk_def satellite_steps_keep_confidence_key initial_simps
        initial_risk_analysis_def)

lemma pipeline_overall:
  "overall_risk_score (analyze_comprehensive_risk self py now c a s bt d) =
     min 1 (risk_score (analyze_address_risk a bt) * 0.3
            + risk_score (analyze_satellite_risk s bt) * 0.4
            + risk_score (analyze_business_compatibility a s bt d) * 0.3)"
  by (simp add: final_defs satellite_no_confidence_key get_or_def)

lemma pipeline_level:
  "risk_level (analyze_comprehensive_risk self py now c a s bt d) =
     (if overall_risk_score (analyze_comprehensive_risk self py now c a s bt d)
           \<ge> high_risk_threshold self then ''HIGH''
      else if overall_risk_score (analyze_comprehensive_risk self py now c a s bt d)
           \<ge> medium_risk_threshold self then ''MEDIUM''
      else ''LOW'')"
  by (simp add: analyze_comprehensive_risk_def generate_final_assessment_def
        update_result_def Let_def)

lemma pipeline_recommendation:
  "recommendation (analyze_comprehensive_risk self py now c a s bt d) =
     (if overall_risk_score (analyze_comprehensive_risk self py now c a s bt d)
           \<ge> high_risk_threshold self then ''BLOCK''
      else if overall_risk_score (analyze_comprehensive_risk self py now c a s bt d)
           \<ge> medium_risk_threshold self then ''MANUAL_REVIEW''
      else ''AUTO_APPROVE'')"
  by (simp add: analyze_comprehensive_risk_def generate_final_assessment_def
        update_result_def Let_def)

lemma default_thresholds:
  "high_risk_threshold default_analyzer = 0.7"
  "medium_risk_threshold default_analyzer = 0.4"
  by (simp_all add: default_analyzer_def)

lemma scenario_c_scores:
  "risk_score (analyze_address_risk scenario_c_address ''technology'') = 0.4"
  "risk_score (analyze_satellite_risk (scenario_c_satellite\<lparr>confidence_score := x\<rparr>) ''technology'') = 0.2"
  "risk_score (analyze_business_compatibility scenario_c_address
                 (scenario_c_satellite\<lparr>confidence_score := x\<rparr>) ''technology'' d) = 0"
  by (simp_all add: address_score_sum satellite_score_sum compat_score_sum
        scenario_c_address_def scenario_c_satellite_def reader_defs str_lower_def lower_char_def)

text \<open>
  Claim C1. The claim says that lowering the satellite confidence from 0.5 to 0.2 raises
  the overall score by 0.1. The fusion step looks the confidence up in the dictionary of
  the satellite scorer, which has no such key, so the default 0.5 is always taken: on the
  inputs of Scenario C the overall score is 0.2 at both confidences.
\<close>

theorem low_confidence_leaves_score_unchanged:
  "overall_risk_score
     (analyze_comprehensive_risk default_analyzer py now c scenario_c_address
        (scenario_c_satellite\<lparr>confidence_score := Some 0.5\<rparr>) ''technology'' d) = 0.2
   \<and> overall_risk_score
     (analyze_comprehensive_risk default_analyzer py now c scenario_c_address
        (scenario_c_satellite\<lparr>confidence_score := Some 0.2\<rparr>) ''technology'' d) = 0.2"
  by (simp add: pipeline_overall scenario_c_scores)

text \<open>
  Claim C2. The claim says that Scenario C reaches the medium threshold and is not
  approved automatically. The code computes \<open>0.4 * 0.3 + 0.2 * 0.4 + 0 * 0.3 = 0.2\<close>,
  below the default medium threshold 0.4: the level is LOW and the recommendation
  AUTO_APPROVE.
\<close>

theorem scenario_c_is_auto_approved:
  "overall_risk_score
     (analyze_comprehensive_risk default_analyzer py now c scenario_c_address
        scenario_c_satellite ''technology'' d) = 0.2
   \<and> risk_level
     (analyze_comprehensive_risk default_analyzer py now c scenario_c_address
        scenario_c_satellite ''technology'' d) = ''LOW''
   \<and> recommendation
     (analyze_comprehensive_risk default_analyzer py now c scenario_c_address
        scenario_c_satellite ''technology'' d) = ''AUTO_APPROVE''"
proof -
  have s: "scenario_c_satellite\<lparr>confidence_score := Some 0.5\<rparr> = scenario_c_satellite"
    by (simp add: scenario_c_satellite_def)
  have "overall_risk_score
     (analyze_comprehensive_risk default_analyzer py now c scenario_c_address
        (scenario_c_satellite\<lparr>confidence_score := Some 0.5\<rparr>) ''technology'' d) = 0.2"
    by (simp add: pipeline_overall scenario_c_scores)
  then have o: "overall_risk_score
     (analyze_comprehensive_risk default_analyzer py now c scenario_c_address
        scenario_c_satellite ''technology'' d) = 0.2"
    by (simp only: s)
  show ?thesis
    by (simp add: pipeline_level pipeline_recommendation o default_thresholds)
qed

text \<open>
  The claim C3 as stated fails: for a logistics business on an empty lot with four risk
  indicators the satellite score is 1.4, and at a residential address the compatibility
  score is 1.1.
\<close>

theorem unclamped_scores_counterexample:
  "\<not> risk_score (analyze_satellite_risk empty_lot_satellite ''logistics'') \<le> 1
   \<and> \<not> risk_score (analyze_business_compatibility scenario_c_address empty_lot_satellite
                       ''logistics'' ''Road freight transport'') \<le> 1"
  by (simp add: satellite_score_sum compat_score_sum empty_lot_satellite_def
        scenario_c_address_def reader_defs str_lower_def lower_char_def)

text \<open>
  Claim C6, as the code has it. The risk factors and the positive factors of the result
  are the first five entries of the concatenation of the three scorers' lists in the
  order address, satellite, compatibility; repeated entries are kept; neither list is
  longer than five.
\<close>

theorem factors_concatenated_and_truncated:
  "result_risk_factors (analyze_comprehensive_risk self py now c a s bt d) =
     take 5 (risk_factors (analyze_address_risk a bt)
             @ risk_factors (analyze_satellite_risk s bt)
             @ risk_factors (analyze_business_compatibility a s bt d))
   \<and> result_positive_factors (analyze_comprehensive_risk self py now c a s bt d) =
     take 5 (positive_factors (analyze_address_risk a bt)
             @ positive_factors (analyze_satellite_risk s bt)
             @ positive_factors (analyze_business_compatibility a s bt d))
   \<and> length (result_risk_factors (analyze_comprehensive_risk self py now c a s bt d)) \<le> 5
   \<and> length (result_positive_factors (analyze_comprehensive_risk self py now c a s bt d)) \<le> 5"
proof -
  have r: "result_risk_factors (analyze_comprehensive_risk self py now c a s bt d) =
     take 5 (risk_factors (analyze_address_risk a bt)
             @ risk_factors (analyze_satellite_risk s bt)
             @ risk_factors (analyze_business_compatibility a s bt d))"
    by (simp add: analyze_comprehensive_risk_def generate_final_assessment_def
          update_result_def Let_def)
  have p: "result_positive_factors (analyze_comprehensive_risk self py now c a s bt d) =
     take 5 (positive_factors (analyze_address_risk a bt)
             @ positive_factors (analyze_satellite_risk s bt)
             @ positive_factors (analyze_business_compatibility a s bt d))"
    by (simp add: analyze_comprehensive_risk_def generate_final_assessment_def
          update_result_def Let_def)
  have l: "length (take 5 xs) \<le> 5" for xs :: "string list"
    by simp
  show ?thesis
    unfolding r p using l by blast
qed

lemma pipeline_risk_factors:
  "result_risk_factors (analyze_comprehensive_risk self py now c a s bt d) =
     take 5 (risk_factors (analyze_address_risk a bt)
             @ risk_factors (analyze_satellite_risk s bt)
             @ risk_factors (analyze_business_compatibility a s bt d))"
  by (simp add: analyze_comprehensive_risk_def generate_final_assessment_def
        update_result_def Let_def)

lemma repeated_indicator_factors:
  "risk_factors (analyze_address_risk manufacturer_downtown ''retail'') = []"
  "risk_factors (analyze_satellite_risk repeated_indicator_satellite ''retail'')
     = [''empty lot'', ''empty lot'']"
  "risk_factors (analyze_business_compatibility manufacturer_downtown
       repeated_indicator_satellite ''retail'' d) = []"
proof -
  have l: "str_lower ''retail'' = ''retail''"
    by (simp add: str_lower_def lower_char_def)
  show "risk_factors (analyze_address_risk manufacturer_downtown ''retail'') = []"
    by (simp add: analyze_address_risk_def manufacturer_downtown_def get_or_def
          address_quality_simps address_amenities_simps address_neighborhood_factors
          address_location_cases l add_risk_simps add_positive_simps initial_simps
          get_expected_locations_def location_mapping_def)
  show "risk_factors (analyze_satellite_risk repeated_indicator_satellite ''retail'')
     = [''empty lot'', ''empty lot'']"
    by (simp add: analyze_satellite_risk_def repeated_indicator_satellite_def
          busy_warehouse_satellite_def reader_defs satellite_quality_step_def
          satellite_ai_risk_step_def satellite_indicator_step_def satellite_vehicle_step_def
          satellite_building_step_def add_risk_simps add_positive_simps initial_simps)
  show "risk_factors (analyze_business_compatibility manufacturer_downtown
       repeated_indicator_satellite ''retail'' d) = []"
    by (simp add: analyze_business_compatibility_def compat_rating_step_def
          compat_activity_step_def compat_size_step_def compat_industrial_step_def
          compat_residential_step_def l initial_simps)
qed

text \<open>
  The claim C6 as stated fails: the lists are not deduplicated. An indicator that the AI
  assessment reports twice appears twice among the risk factors of the result.
\<close>

theorem repeated_factor_counterexample:
  "\<not> distinct (result_risk_factors
        (analyze_comprehensive_risk default_analyzer stand_in_py ''2024-05-01T10:00:00''
           ''12345678000190'' manufacturer_downtown repeated_indicator_satellite ''retail''
           ''Clothing shop''))"
  by (simp add: pipeline_risk_factors repeated_indicator_factors)

text \<open>
  Claim C4, as the code has it. Two runs on the same inputs return results that agree on
  every field except \<open>analysis_timestamp\<close>, which holds the reading of the clock of
  each run.
\<close>

theorem timestamp_is_the_only_difference:
  "(analyze_comprehensive_risk self py now1 c a s bt d)\<lparr>analysis_timestamp := t\<rparr>
   = (analyze_comprehensive_risk self py now2 c a s bt d)\<lparr>analysis_timestamp := t\<rparr>"
  by (simp add: analyze_comprehensive_risk_def generate_final_assessment_def
        update_result_def calculate_confidence_level_def Let_def)

text \<open>
  The claim C4 as stated fails: two runs on the same inputs at different clock readings
  return different results.
\<close>

theorem two_runs_differ_counterexample:
  "analyze_comprehensive_risk default_analyzer stand_in_py ''2024-05-01T10:00:00.000001''
       ''12345678000190'' scenario_c_address scenario_c_satellite ''technology''
       ''Software development''
   \<noteq> analyze_comprehensive_risk default_analyzer stand_in_py ''2024-05-01T10:00:00.000002''
       ''12345678000190'' scenario_c_address scenario_c_satellite ''technology''
       ''Software development''"
proof
  assume "analyze_comprehensive_risk default_analyzer stand_in_py ''2024-05-01T10:00:00.000001''
       ''12345678000190'' scenario_c_address scenario_c_satellite ''technology''
       ''Software development''
   = analyze_comprehensive_risk default_analyzer stand_in_py ''2024-05-01T10:00:00.000002''
       ''12345678000190'' scenario_c_address scenario_c_satellite ''technology''
       ''Software development''"
  then have "analysis_timestamp (analyze_comprehensive_risk default_analyzer stand_in_py
       ''2024-05-01T10:00:00.000001'' ''12345678000190'' scenario_c_address
       scenario_c_satellite ''technology'' ''Software development'')
   = analysis_timestamp (analyze_comprehensive_risk default_analyzer stand_in_py
       ''2024-05-01T10:00:00.000002'' ''12345678000190'' scenario_c_address
       scenario_c_satellite ''technology'' ''Software development'')"
    by simp
  then show False
    by (simp add: analyze_comprehensive_risk_def update_result_def Let_def)
qed

text \<open>
  Claim C8. Raising any of the three partial scores, with the confidence entry unchanged,
  never lowers the overall score.
\<close>

theorem fusion_monotone:
  assumes "risk_score a \<le> risk_score a'"
      and "risk_score s \<le> risk_score s'"
      and "risk_score c \<le> risk_score c'"
      and "risk_confidence_score s = risk_confidence_score s'"
  shows "calculate_overall_risk_score a s c \<le> calculate_overall_risk_score a' s' c'"
proof -
  have w: "weighted_average a s c \<le> weighted_average a' s' c'"
    using assms(1-3) by (simp add: weighted_average_def)
  show ?thesis
    unfolding calculate_overall_risk_score_def using w assms(4) by auto
qed

theorem fusion_monotone_witness:
  "risk_score initial_risk_analysis \<le> risk_score (initial_risk_analysis\<lparr>risk_score := 0.9\<rparr>)
   \<and> risk_confidence_score initial_risk_analysis = risk_confidence_score initial_risk_analysis
   \<and> calculate_overall_risk_score initial_risk_analysis initial_risk_analysis
         initial_risk_analysis
       \<le> calculate_overall_risk_score (initial_risk_analysis\<lparr>risk_score := 0.9\<rparr>)
            initial_risk_analysis initial_risk_analysis"
  using fusion_monotone[of initial_risk_analysis "initial_risk_analysis\<lparr>risk_score := 0.9\<rparr>"
          initial_risk_analysis initial_risk_analysis initial_risk_analysis
          initial_risk_analysis]
  by (simp add: initial_risk_analysis_def)

lemma building_loop_filter:
  "building_loop cv contours bs
     = bs @ map (building_of cv) (filter (counted_as_building cv) contours)"
  by (induction contours arbitrary: bs)
     (simp_all add: counted_as_building_def building_of_def)

lemma max_default_Max:
  "max_default 0 xs = (if xs = [] then 0 else Max (set xs))"
  by (cases xs) (simp_all add: Max.set_eq_fold[symmetric])

lemma area_building_of: "area \<circ> building_of cv = contourArea cv"
  by (simp add: fun_eq_iff building_of_def)

lemma count_list_take:
  "count_list (take n xs) b \<le> count_list xs b"
proof (induction xs arbitrary: n)
  case Nil
  then show ?case by simp
next
  case (Cons x xs)
  show ?case
  proof (cases n)
    case 0
    then show ?thesis by simp
  next
    case (Suc m)
    then show ?thesis using Cons.IH[of m] by simp
  qed
qed

text \<open>
  Claim C9, as the code has it. Building detection retains exactly the contours whose
  area is greater than 1000 and whose polygon approximation has at least 4 vertices. It
  reports their number, the sum of their areas, the largest area (0 when there is none)
  and a list of the retained buildings that has 10 entries, or all of them when there are
  fewer than 10. Which ten are listed when there are more is not stated here.
\<close>

theorem detect_buildings_report:
  assumes "edge_contours cv img = Inr contours"
  shows "\<exists>r. detect_buildings cv img = Inr r
     \<and> building_count r = Some (int (length (filter (counted_as_building cv) contours)))
     \<and> total_building_area r
         = Some (sum_list (map (contourArea cv) (filter (counted_as_building cv) contours)))
     \<and> largest_building_area r
         = Some (if filter (counted_as_building cv) contours = [] then 0
                 else Max (set (map (contourArea cv) (filter (counted_as_building cv) contours))))
     \<and> (\<exists>bs. buildings r = Some bs
              \<and> length bs = min 10 (length (filter (counted_as_building cv) contours))
              \<and> (\<forall>b. count_list bs b
                        \<le> count_list
                             (map (building_of cv) (filter (counted_as_building cv) contours))
                             b))"
proof -
  let ?kept = "filter (counted_as_building cv) contours"
  have loop: "building_loop cv contours [] = map (building_of cv) ?kept"
    by (simp add: building_loop_filter)
  have mx: "max_default 0 (map (contourArea cv) ?kept)
      = (if ?kept = [] then 0 else Max (set (map (contourArea cv) ?kept)))"
    by (simp add: max_default_Max)
  have ln: "length (take 10 (map (building_of cv) ?kept)) = min 10 (length ?kept)"
    by simp
  have ct: "\<forall>b. count_list (take 10 (map (building_of cv) ?kept)) b
               \<le> count_list (map (building_of cv) ?kept) b"
    by (simp add: count_list_take)
  have d: "detect_buildings cv img =
     Inr \<lparr>building_count = Some (int (length ?kept)),
          total_building_area = Some (sum_list (map (contourArea cv) ?kept)),
          largest_building_area = Some (max_default 0 (map (contourArea cv) ?kept)),
          buildings = Some (take 10 (map (building_of cv) ?kept))\<rparr>"
    using assms by (simp add: detect_buildings_def loop area_building_of)
  show ?thesis
    unfolding d mx[symmetric] using ln ct by simp
qed

lemma stand_in_cv2_simps:
  "edge_contours stand_in_cv2 = Inr"
  "contourArea stand_in_cv2 = fst"
  "arcLength stand_in_cv2 c = 200"
  "approxPolyDP stand_in_cv2 c epsilon = snd c"
  "imdecode stand_in_cv2 data = (if data = [] then Inl ''empty buffer'' else Inr None)"
  by (simp_all add: stand_in_cv2_def)

theorem detect_buildings_report_witness:
  "edge_contours stand_in_cv2 four_contours = Inr four_contours
   \<and> (\<exists>r. detect_buildings stand_in_cv2 four_contours = Inr r
           \<and> building_count r = Some 2
           \<and> total_building_area r = Some 5500
           \<and> largest_building_area r = Some 4000
           \<and> (\<exists>bs. buildings r = Some bs \<and> length bs = 2))"
proof -
  have h: "edge_contours stand_in_cv2 four_contours = Inr four_contours"
    by (simp add: stand_in_cv2_simps)
  have k: "filter (counted_as_building stand_in_cv2) four_contours = [(1500, 4), (4000, 5)]"
    by (simp add: counted_as_building_def stand_in_cv2_simps four_contours_def)
  show ?thesis
    using h detect_buildings_report[OF h] unfolding k
    by (auto simp add: stand_in_cv2_simps)
qed

text \<open>
  The claim C9 as stated fails at the boundary: a contour of area exactly 1000 with four
  vertices is not retained.
\<close>

theorem boundary_contour_counterexample:
  "contourArea stand_in_cv2 (1000, 4) \<ge> 1000
   \<and> approxPolyDP stand_in_cv2 (1000, 4) (0.02 * arcLength stand_in_cv2 (1000, 4)) \<ge> 4
   \<and> detect_buildings stand_in_cv2 [(1000, 4)]
       = Inr \<lparr>building_count = Some 0, total_building_area = Some 0,
              largest_building_area = Some 0, buildings = Some []\<rparr>"
  by (simp add: detect_buildings_def stand_in_cv2_simps)

text \<open>
  The list \<open>buildings\<close> holds the first ten retained buildings in the order of the
  contours, which need not be the ten largest: of eleven buildings of growing area the
  largest is the one left out.
\<close>

lemma first_ten_in_contour_order:
  "(case detect_buildings stand_in_cv2 eleven_contours of
      Inl e \<Rightarrow> None
    | Inr r \<Rightarrow> map_option (map area) (buildings r))
   = Some [2000, 3000, 4000, 5000, 6000, 7000, 8000, 9000, 10000, 11000]
   \<and> (case detect_buildings stand_in_cv2 eleven_contours of
      Inl e \<Rightarrow> None
    | Inr r \<Rightarrow> largest_building_area r) = Some 12000"
  by (simp add: detect_buildings_def building_loop_filter counted_as_building_def
        building_of_def stand_in_cv2_simps eleven_contours_def)

lemma raised_simps:
  "raised (Inl e) = Some e"
  "raised (Inr v) = None"
  by (simp_all add: raised_def)

text \<open>
  Claim C7, as the code has it. The feature extractor returns a dictionary for every
  byte buffer, and the dictionary has an error entry exactly when a step raised: the
  entry is the message of the first exception. When the buffer does not decode to an
  image, the dictionary has its four sections empty and no error entry; the scorers read
  the absent counts and areas as 0.
\<close>

theorem undecodable_image_result:
  "(\<exists>r. computer_vision_analysis cv image_data = Inr r
         \<and> cv_error r = first_exception cv image_data)
   \<and> (imdecode cv image_data = Inr None \<longrightarrow>
        computer_vision_analysis cv image_data = Inr initial_analysis
        \<and> cv_error initial_analysis = None
        \<and> get_or 0 (building_count
             (read_building_detection (s\<lparr>visual_features := Some initial_analysis\<rparr>))) = 0
        \<and> get_or 0 (total_building_area
             (read_building_detection (s\<lparr>visual_features := Some initial_analysis\<rparr>))) = 0
        \<and> get_or 0 (largest_building_area
             (read_building_detection (s\<lparr>visual_features := Some initial_analysis\<rparr>))) = 0
        \<and> get_or 0 (vehicle_count
             (read_vehicle_detection (s\<lparr>visual_features := Some initial_analysis\<rparr>))) = 0)"
proof -
  have e0: "cv_error initial_analysis = None"
    by (simp add: initial_analysis_def)
  have returns: "\<exists>r. computer_vision_analysis cv image_data = Inr r
         \<and> cv_error r = first_exception cv image_data"
  proof (cases "imdecode cv image_data")
    case (Inl e)
    then show ?thesis
      by (simp add: computer_vision_analysis_def first_exception_def step_outcomes_def
            raised_simps)
  next
    case (Inr decoded)
    show ?thesis
    proof (cases decoded)
      case None
      with Inr show ?thesis
        by (simp add: computer_vision_analysis_def first_exception_def step_outcomes_def
              raised_simps e0)
    next
      case (Some img)
      with Inr show ?thesis
        by (simp add: computer_vision_analysis_def first_exception_def step_outcomes_def
              raised_simps e0 split: sum.splits)
    qed
  qed
  have none: "computer_vision_analysis cv image_data = Inr initial_analysis"
    if "imdecode cv image_data = Inr None"
    using that by (simp add: computer_vision_analysis_def)
  have reads:
    "get_or 0 (building_count
             (read_building_detection (s\<lparr>visual_features := Some initial_analysis\<rparr>))) = 0"
    "get_or 0 (total_building_area
             (read_building_detection (s\<lparr>visual_features := Some initial_analysis\<rparr>))) = 0"
    "get_or 0 (largest_building_area
             (read_building_detection (s\<lparr>visual_features := Some initial_analysis\<rparr>))) = 0"
    "get_or 0 (vehicle_count
             (read_vehicle_detection (s\<lparr>visual_features := Some initial_analysis\<rparr>))) = 0"
    by (simp_all add: initial_analysis_def reader_defs empty_building_detection_def
          empty_vehicle_detection_def)
  show ?thesis using returns none e0 reads by blast
qed

theorem undecodable_image_result_witness:
  "imdecode stand_in_cv2 ''GIF89a, cut short'' = Inr None
   \<and> computer_vision_analysis stand_in_cv2 ''GIF89a, cut short'' = Inr initial_analysis
   \<and> (\<exists>r. computer_vision_analysis stand_in_cv2 [] = Inr r
           \<and> cv_error r = Some ''empty buffer'')"
proof -
  have h: "imdecode stand_in_cv2 ''GIF89a, cut short'' = Inr None"
    by (simp add: stand_in_cv2_simps)
  have f: "first_exception stand_in_cv2 [] = Some ''empty buffer''"
    by (simp add: first_exception_def step_outcomes_def raised_simps stand_in_cv2_simps)
  show ?thesis
    using h f undecodable_image_result[of stand_in_cv2 "''GIF89a, cut short''"]
      undecodable_image_result[of stand_in_cv2 "[]"]
    by simp
qed

text \<open>
  The claim C7 as stated fails: for a buffer that is not an image the result carries no
  error entry, and its building section holds no count at all.
\<close>

theorem no_error_marker_counterexample:
  "imdecode stand_in_cv2 ''not an image'' = Inr None
   \<and> computer_vision_analysis stand_in_cv2 ''not an image'' = Inr initial_analysis
   \<and> cv_error initial_analysis = None
   \<and> map_option building_count (building_detection initial_analysis) = Some None"
  by (simp add: computer_vision_analysis_def stand_in_cv2_simps initial_analysis_def
        empty_building_detection_def)



end
